theory Spec2Isabelle
  imports Main "HOL-Library.Word"
begin

section \<open>The numpy values the indexer handles\<close>

text \<open>
  \<^verbatim>\<open>BaseNumpyIndexer\<close> (jina/executors/indexers/vector/__init__.py) reads of an array
  only its \<^verbatim>\<open>shape\<close>, its \<^verbatim>\<open>dtype.name\<close> and its \<^verbatim>\<open>tobytes()\<close>, and builds
  arrays only with \<^verbatim>\<open>np.frombuffer(...)\<close> and \<^verbatim>\<open>.reshape([-1, d])\<close>. An array is
  its shape, its scalar type, the byte order of that type and its row-major buffer.
  The scalar types are numpy's numeric types of fixed width; strings, objects, dates,
  structured types and \<^verbatim>\<open>longdouble\<close> are left out.
\<close>

type_synonym byte = "8 word"

datatype np_dtype =
    Bool | Int8 | Int16 | Int32 | Int64
  | UInt8 | UInt16 | UInt32 | UInt64
  | Float16 | Float32 | Float64 | Complex64 | Complex128

fun dtype_name :: "np_dtype \<Rightarrow> string" where
  "dtype_name Bool = ''bool''"
| "dtype_name Int8 = ''int8''"
| "dtype_name Int16 = ''int16''"
| "dtype_name Int32 = ''int32''"
| "dtype_name Int64 = ''int64''"
| "dtype_name UInt8 = ''uint8''"
| "dtype_name UInt16 = ''uint16''"
| "dtype_name UInt32 = ''uint32''"
| "dtype_name UInt64 = ''uint64''"
| "dtype_name Float16 = ''float16''"
| "dtype_name Float32 = ''float32''"
| "dtype_name Float64 = ''float64''"
| "dtype_name Complex64 = ''complex64''"
| "dtype_name Complex128 = ''complex128''"

fun itemsize :: "np_dtype \<Rightarrow> nat" where
  "itemsize Bool = 1"
| "itemsize Int8 = 1"
| "itemsize Int16 = 2"
| "itemsize Int32 = 4"
| "itemsize Int64 = 8"
| "itemsize UInt8 = 1"
| "itemsize UInt16 = 2"
| "itemsize UInt32 = 4"
| "itemsize UInt64 = 8"
| "itemsize Float16 = 2"
| "itemsize Float32 = 4"
| "itemsize Float64 = 8"
| "itemsize Complex64 = 8"
| "itemsize Complex128 = 16"

text \<open>\<^verbatim>\<open>np.dtype(name)\<close> on the names \<^verbatim>\<open>dtype.name\<close> produces; any other string is
  not understood.\<close>

definition dtype_of_name :: "string \<Rightarrow> np_dtype option" where
  "dtype_of_name n =
     (if n = ''bool'' then Some Bool
      else if n = ''int8'' then Some Int8
      else if n = ''int16'' then Some Int16
      else if n = ''int32'' then Some Int32
      else if n = ''int64'' then Some Int64
      else if n = ''uint8'' then Some UInt8
      else if n = ''uint16'' then Some UInt16
      else if n = ''uint32'' then Some UInt32
      else if n = ''uint64'' then Some UInt64
      else if n = ''float16'' then Some Float16
      else if n = ''float32'' then Some Float32
      else if n = ''float64'' then Some Float64
      else if n = ''complex64'' then Some Complex64
      else if n = ''complex128'' then Some Complex128
      else None)"

text \<open>
  \<^verbatim>\<open>isnative\<close> is \<^verbatim>\<open>dtype.isnative\<close>: whether the elements lie in the buffer in the byte
  order of the machine. \<^verbatim>\<open>dtype.name\<close> does not tell: \<^verbatim>\<open>np.dtype('>f4').name\<close> and
  \<^verbatim>\<open>np.dtype('<f4').name\<close> are both \<^verbatim>\<open>'float32'\<close>. \<^verbatim>\<open>tobytes()\<close> gives the
  elements in the array's own byte order.
\<close>

record ndarray =
  shape :: "nat list"
  arr_dtype :: np_dtype
  isnative :: bool
  tobytes :: "byte list"

text \<open>
  The elements of an array, in row-major order, each as its bytes in the byte order of
  the machine: the bytes of the buffer for a native array, and swapped back for an
  array in the other order (a complex number is a pair, swapped part by part). Two
  arrays of one shape and type are equal element for element when these lists are equal
  (up to the comparison of floats, where a \<^verbatim>\<open>NaN\<close> differs from itself).
\<close>

definition swap_item :: "np_dtype \<Rightarrow> byte list \<Rightarrow> byte list" where
  "swap_item t item =
     (if t = Complex64 \<or> t = Complex128
      then rev (take (length item div 2) item) @ rev (drop (length item div 2) item)
      else rev item)"

definition elements :: "ndarray \<Rightarrow> byte list list" where
  "elements a =
     (let sz = itemsize (arr_dtype a) in
      map (\<lambda>i. let item = take sz (drop (i * sz) (tobytes a))
               in if isnative a then item else swap_item (arr_dtype a) item)
          [0 ..< length (tobytes a) div sz])"

text \<open>The exceptions of the module, by class, with the place that raises them.\<close>

datatype reason =
    BadRank | DimMismatch | DtypeMismatch | CountMismatch | KeyDtypeMismatch
  | BufferSize | CannotReshape | DtypeNotUnderstood

datatype error =
    ValueError reason | TypeError reason | IndexError | NotImplementedError

type_synonym 'a result = "error + 'a"

text \<open>\<^verbatim>\<open>a.shape[0]\<close>: a 0-d array has the empty shape tuple, and indexing it raises.\<close>

definition shape0 :: "ndarray \<Rightarrow> nat result" where
  "shape0 a = (case shape a of [] \<Rightarrow> Inl IndexError | n # _ \<Rightarrow> Inr n)"

text \<open>\<^verbatim>\<open>np.frombuffer(buffer, dtype=name)\<close>: a 1-d array over the buffer, of the native
  type of that name; the buffer length must be a multiple of the element size.\<close>

definition frombuffer :: "byte list \<Rightarrow> string \<Rightarrow> ndarray result" where
  "frombuffer buffer name =
     (case dtype_of_name name of
        None \<Rightarrow> Inl (TypeError DtypeNotUnderstood)
      | Some t \<Rightarrow>
          if length buffer mod itemsize t \<noteq> 0 then Inl (ValueError BufferSize)
          else Inr \<lparr>shape = [length buffer div itemsize t], arr_dtype = t, isnative = True, tobytes = buffer\<rparr>)"

text \<open>\<^verbatim>\<open>a.reshape([-1, d])\<close>: the row count is inferred; numpy refuses \<^verbatim>\<open>d = 0\<close> and
  an element count that \<^verbatim>\<open>d\<close> does not divide.\<close>

definition reshape_rows :: "ndarray \<Rightarrow> nat \<Rightarrow> ndarray result" where
  "reshape_rows a d =
     (let n = prod_list (shape a) in
      if d = 0 \<or> n mod d \<noteq> 0 then Inl (ValueError CannotReshape)
      else Inr (a\<lparr>shape := [n div d, d]\<rparr>))"

section \<open>The indexer\<close>

datatype level = Info | Warning | Error

datatype message =
    LoadingIndex | DataNotFound | BrokenIncomplete
  | KeysVectorsInconsistent nat nat | EmptyIndexLoaded

text \<open>
  The attributes of a \<^verbatim>\<open>BaseNumpyIndexer\<close>. \<^verbatim>\<open>u_size\<close> is the attribute
  \<^verbatim>\<open>_size\<close>; \<^verbatim>\<open>write_handler\<close> is the content written so far to the gzip stream
  of that name; \<^verbatim>\<open>logger\<close> is what was sent to \<^verbatim>\<open>self.logger\<close>. Writing to the
  stream and logging always succeed: input/output errors are left out.
\<close>

record store =
  num_dim :: "nat option"
  dtype :: "string option"
  compress_level :: int
  key_bytes :: "byte list"
  key_dtype :: "string option"
  u_size :: nat
  int2ext_key :: "ndarray option"
  write_handler :: "byte list"
  logger :: "(level \<times> message) list"

text \<open>
  Modelled from the spec: the attributes \<^verbatim>\<open>_size\<close>, \<^verbatim>\<open>int2ext_key\<close>, \<^verbatim>\<open>logger\<close> and
  \<^verbatim>\<open>write_handler\<close> are initialised by the parent class \<^verbatim>\<open>BaseVectorIndexer\<close>, which
  is not in the module: the count starts at 0, the lookup table is unset, nothing is
  logged and nothing is written. The other five fields are as \<^verbatim>\<open>__init__\<close> sets them.
\<close>

definition init :: "int \<Rightarrow> store" where
  "init cl = \<lparr>num_dim = None, dtype = None, compress_level = cl, key_bytes = [],
              key_dtype = None, u_size = 0, int2ext_key = None, write_handler = [],
              logger = []\<rparr>"

text \<open>The truth value of \<^verbatim>\<open>self.num_dim\<close>: \<^verbatim>\<open>None\<close> and \<^verbatim>\<open>0\<close> are false.\<close>

fun truthy_int :: "nat option \<Rightarrow> bool" where
  "truthy_int None = False"
| "truthy_int (Some n) = (n \<noteq> 0)"

definition log :: "level \<Rightarrow> message \<Rightarrow> store \<Rightarrow> store" where
  "log l m s = s\<lparr>logger := logger s @ [(l, m)]\<rparr>"

text \<open>Lines 69 to 72 of \<^verbatim>\<open>add\<close>: the four updates, in order. The last one reads
  \<^verbatim>\<open>keys.shape[0]\<close> after the other three are done.\<close>

definition write_batch :: "store \<Rightarrow> ndarray \<Rightarrow> ndarray \<Rightarrow> unit result \<times> store" where
  "write_batch s keys vectors =
     (let s1 = s\<lparr>write_handler := write_handler s @ tobytes vectors\<rparr>;
          s2 = s1\<lparr>key_bytes := key_bytes s1 @ tobytes keys\<rparr>;
          s3 = s2\<lparr>key_dtype := Some (dtype_name (arr_dtype keys))\<rparr>
      in case shape0 keys of
           Inl e \<Rightarrow> (Inl e, s3)
         | Inr n \<Rightarrow> (Inr (), s3\<lparr>u_size := u_size s3 + n\<rparr>))"

text \<open>\<^verbatim>\<open>add(keys, vectors)\<close>: the result and the state the call leaves behind, also
  when it raises.\<close>

definition add :: "store \<Rightarrow> ndarray \<Rightarrow> ndarray \<Rightarrow> unit result \<times> store" where
  "add s keys vectors =
     (if length (shape vectors) \<noteq> 2 then (Inl (ValueError BadRank), s)
      else if \<not> truthy_int (num_dim s) then
        write_batch (s\<lparr>num_dim := Some (shape vectors ! 1),
                       dtype := Some (dtype_name (arr_dtype vectors))\<rparr>) keys vectors
      else if num_dim s \<noteq> Some (shape vectors ! 1) then (Inl (ValueError DimMismatch), s)
      else if dtype s \<noteq> Some (dtype_name (arr_dtype vectors)) then
        (Inl (TypeError DtypeMismatch), s)
      else
        (case shape0 keys of
           Inl e \<Rightarrow> (Inl e, s)
         | Inr n \<Rightarrow>
             if n \<noteq> shape vectors ! 0 then (Inl (ValueError CountMismatch), s)
             else if key_dtype s \<noteq> Some (dtype_name (arr_dtype keys)) then
               (Inl (TypeError KeyDtypeMismatch), s)
             else write_batch s keys vectors))"

text \<open>
  What \<^verbatim>\<open>_load_gzip\<close> finds at \<^verbatim>\<open>abspath\<close>: no file (\<^verbatim>\<open>path.exists\<close> is false), or
  a gzip file whose \<^verbatim>\<open>read()\<close> either raises \<^verbatim>\<open>EOFError\<close> (the stream ends before
  its end marker) or returns the decompressed bytes. \<^verbatim>\<open>EOFError\<close> is the one exception
  \<^verbatim>\<open>_load_gzip\<close> catches; it logs an error and returns \<^verbatim>\<open>None\<close>.
\<close>

datatype gzfile = Incomplete | Complete "byte list"

definition load_gzip :: "store \<Rightarrow> gzfile option \<Rightarrow> ndarray option result \<times> store" where
  "load_gzip s abspath =
     (let s1 = log Info LoadingIndex s in
      case abspath of
        None \<Rightarrow> (Inr None, log Warning DataNotFound s1)
      | Some f \<Rightarrow>
          (case (num_dim s1, dtype s1) of
             (Some d, Some t) \<Rightarrow>
               if d \<noteq> 0 \<and> t \<noteq> [] then
                 (case f of
                    Incomplete \<Rightarrow> (Inr None, log Error BrokenIncomplete s1)
                  | Complete bs \<Rightarrow>
                      (case frombuffer bs t of
                         Inl e \<Rightarrow> (Inl e, s1)
                       | Inr a \<Rightarrow>
                           (case reshape_rows a d of
                              Inl e \<Rightarrow> (Inl e, s1)
                            | Inr vecs \<Rightarrow> (Inr (Some vecs), s1))))
               else (Inr None, s1)
           | _ \<Rightarrow> (Inr None, s1)))"

text \<open>The second statement of \<^verbatim>\<open>raw_ndarray\<close>: the lookup table is rebuilt from
  \<^verbatim>\<open>key_bytes\<close> when there are key bytes and a key type, and kept otherwise.\<close>

definition refresh_keys :: "store \<Rightarrow> store result" where
  "refresh_keys s =
     (case key_dtype s of
        Some kt \<Rightarrow>
          if key_bytes s \<noteq> [] \<and> kt \<noteq> [] then
            (case frombuffer (key_bytes s) kt of
               Inl e \<Rightarrow> Inl e
             | Inr k \<Rightarrow> Inr (s\<lparr>int2ext_key := Some k\<rparr>))
          else Inr s
      | None \<Rightarrow> Inr s)"

text \<open>The last statement of \<^verbatim>\<open>raw_ndarray\<close>, for a loaded array \<^verbatim>\<open>vecs\<close>.\<close>

definition reconcile :: "store \<Rightarrow> ndarray \<Rightarrow> ndarray option result \<times> store" where
  "reconcile s vecs =
     (case int2ext_key s of
        None \<Rightarrow> (Inr None, s)
      | Some k \<Rightarrow>
          if length (shape vecs) = 2 then
            (case shape0 k of
               Inl e \<Rightarrow> (Inl e, s)
             | Inr n \<Rightarrow>
                 if n \<noteq> shape vecs ! 0 then
                   (Inr None, log Error (KeysVectorsInconsistent n (shape vecs ! 0)) s)
                 else if shape vecs ! 0 = 0 then
                   (Inr (Some vecs), log Warning EmptyIndexLoaded s)
                 else (Inr (Some vecs), s))
          else (Inr None, s))"

definition raw_ndarray :: "store \<Rightarrow> gzfile option \<Rightarrow> ndarray option result \<times> store" where
  "raw_ndarray s index_abspath =
     (case load_gzip s index_abspath of
        (Inl e, s1) \<Rightarrow> (Inl e, s1)
      | (Inr None, s1) \<Rightarrow> (Inr None, s1)
      | (Inr (Some vecs), s1) \<Rightarrow>
          (case refresh_keys s1 of
             Inl e \<Rightarrow> (Inl e, s1)
           | Inr s2 \<Rightarrow> reconcile s2 vecs))"

text \<open>\<^verbatim>\<open>build_advanced_index\<close> of the base class.\<close>

definition build_advanced_index :: "ndarray \<Rightarrow> 'i result" where
  "build_advanced_index vecs = Inl NotImplementedError"

text \<open>
  \<^verbatim>\<open>get_query_handler\<close>, for the \<^verbatim>\<open>build_advanced_index\<close> of a subclass given as
  \<^verbatim>\<open>hook\<close>. The third component lists the arguments of the calls of the hook.
\<close>

definition get_query_handler ::
  "(ndarray \<Rightarrow> 'i result) \<Rightarrow> store \<Rightarrow> gzfile option \<Rightarrow> 'i option result \<times> store \<times> ndarray list"
where
  "get_query_handler hook s index_abspath =
     (case raw_ndarray s index_abspath of
        (Inl e, s1) \<Rightarrow> (Inl e, s1, [])
      | (Inr None, s1) \<Rightarrow> (Inr None, s1, [])
      | (Inr (Some vecs), s1) \<Rightarrow>
          (case hook vecs of
             Inl e \<Rightarrow> (Inl e, s1, [vecs])
           | Inr i \<Rightarrow> (Inr (Some i), s1, [vecs])))"

section \<open>Sessions\<close>

text \<open>
  Modelled from the spec: closing the write session and reopening the store for read.
  The gzip stream behind \<^verbatim>\<open>write_handler\<close> is opened and closed by the parent class,
  which is not in the module; once closed, the file exists and decompresses to the bytes
  that were written.
\<close>

definition closed_file :: "store \<Rightarrow> gzfile option" where
  "closed_file s = Some (Complete (write_handler s))"

text \<open>A caller appending batches one after the other; the first exception ends the
  sequence.\<close>

fun add_all :: "store \<Rightarrow> (ndarray \<times> ndarray) list \<Rightarrow> unit result \<times> store" where
  "add_all s [] = (Inr (), s)"
| "add_all s ((keys, vectors) # bs) =
     (case add s keys vectors of
        (Inl e, s') \<Rightarrow> (Inl e, s')
      | (Inr u, s') \<Rightarrow> add_all s' bs)"

definition total_rows :: "(ndarray \<times> ndarray) list \<Rightarrow> nat" where
  "total_rows bs = sum_list (map (\<lambda>(keys, vectors). shape vectors ! 0) bs)"

text \<open>Any sequence of calls on one indexer. A call that raises leaves the indexer as it
  was at the \<^verbatim>\<open>raise\<close>, and the caller goes on.\<close>

datatype operation =
    Add ndarray ndarray | LoadGzip "gzfile option" | RawNdarray "gzfile option"
  | GetQueryHandler "gzfile option"

fun step :: "(ndarray \<Rightarrow> 'i result) \<Rightarrow> store \<Rightarrow> operation \<Rightarrow> store" where
  "step hook s (Add keys vectors) = snd (add s keys vectors)"
| "step hook s (LoadGzip f) = snd (load_gzip s f)"
| "step hook s (RawNdarray f) = snd (raw_ndarray s f)"
| "step hook s (GetQueryHandler f) = fst (snd (get_query_handler hook s f))"

definition run :: "(ndarray \<Rightarrow> 'i result) \<Rightarrow> store \<Rightarrow> operation list \<Rightarrow> store" where
  "run hook s ops = foldl (step hook) s ops"

section \<open>Well-formed inputs\<close>

text \<open>The buffer of a numpy array has \<^verbatim>\<open>size * itemsize\<close> bytes.\<close>

definition wf_array :: "ndarray \<Rightarrow> bool" where
  "wf_array a = (length (tobytes a) = prod_list (shape a) * itemsize (arr_dtype a))"

text \<open>A batch of the schema \<open>D\<close>, \<open>T\<close>, \<open>KT\<close>: \<open>N \<times> D\<close> vectors of type \<open>T\<close> and
  a 1-d array of \<open>N\<close> keys of type \<open>KT\<close>.\<close>

definition batch_ok :: "nat \<Rightarrow> np_dtype \<Rightarrow> np_dtype \<Rightarrow> ndarray \<times> ndarray \<Rightarrow> bool" where
  "batch_ok D T KT b =
     (case b of (keys, vectors) \<Rightarrow>
        wf_array keys \<and> wf_array vectors \<and> length (shape vectors) = 2 \<and>
        shape vectors ! 1 = D \<and> arr_dtype vectors = T \<and>
        shape keys = [shape vectors ! 0] \<and> arr_dtype keys = KT)"

section \<open>Example arrays\<close>

text \<open>Keys \<^verbatim>\<open>[1, 2, 3]\<close> (int64) and vectors \<^verbatim>\<open>[[1, 2], [3, 4], [5, 6]]\<close> (float32),
  little-endian, and further arrays for the examples below.\<close>

definition keys3 :: ndarray where
  "keys3 = \<lparr>shape = [3], arr_dtype = Int64, isnative = True,
     tobytes = [1,0,0,0,0,0,0,0, 2,0,0,0,0,0,0,0, 3,0,0,0,0,0,0,0]\<rparr>"

definition vectors32 :: ndarray where
  "vectors32 = \<lparr>shape = [3, 2], arr_dtype = Float32, isnative = True,
     tobytes = [0,0,128,63, 0,0,0,64, 0,0,64,64, 0,0,128,64, 0,0,160,64, 0,0,192,64]\<rparr>"

definition keys2 :: ndarray where
  "keys2 = \<lparr>shape = [2], arr_dtype = Int64, isnative = True,
     tobytes = [1,0,0,0,0,0,0,0, 2,0,0,0,0,0,0,0]\<rparr>"

definition vectors23 :: ndarray where
  "vectors23 = \<lparr>shape = [2, 3], arr_dtype = Float32, isnative = True,
     tobytes = [0,0,128,63, 0,0,0,64, 0,0,64,64, 0,0,128,64, 0,0,160,64, 0,0,192,64]\<rparr>"

definition keys45 :: ndarray where
  "keys45 = \<lparr>shape = [2], arr_dtype = Int64, isnative = True,
     tobytes = [4,0,0,0,0,0,0,0, 5,0,0,0,0,0,0,0]\<rparr>"

definition vectors22 :: ndarray where
  "vectors22 = \<lparr>shape = [2, 2], arr_dtype = Float32, isnative = True,
     tobytes = [0,0,224,64, 0,0,0,65, 0,0,16,65, 0,0,32,65]\<rparr>"

definition keys1 :: ndarray where
  "keys1 = \<lparr>shape = [1], arr_dtype = Int64, isnative = True, tobytes = [7,0,0,0,0,0,0,0]\<rparr>"

definition vectors10 :: ndarray where
  "vectors10 = \<lparr>shape = [1, 0], arr_dtype = Float32, isnative = True, tobytes = []\<rparr>"

definition vectors13 :: ndarray where
  "vectors13 = \<lparr>shape = [1, 3], arr_dtype = Float64, isnative = True,
     tobytes = [0,0,0,0,0,0,240,63, 0,0,0,0,0,0,0,64, 0,0,0,0,0,0,8,64]\<rparr>"

definition keys0 :: ndarray where
  "keys0 = \<lparr>shape = [0], arr_dtype = Int64, isnative = True, tobytes = []\<rparr>"

definition vectors02 :: ndarray where
  "vectors02 = \<lparr>shape = [0, 2], arr_dtype = Float32, isnative = True, tobytes = []\<rparr>"

definition vectors62 :: ndarray where
  "vectors62 = \<lparr>shape = [6, 2], arr_dtype = Float32, isnative = True,
                 tobytes = tobytes vectors32 @ tobytes vectors32\<rparr>"

text \<open>A 0-d key array, \<^verbatim>\<open>np.array(5)\<close>, and the vectors \<^verbatim>\<open>[[1, 2]]\<close> (float32) in the
  byte order that is not the machine's, here big-endian on a little-endian machine.\<close>

definition keys0d :: ndarray where
  "keys0d = \<lparr>shape = [], arr_dtype = Int64, isnative = True, tobytes = [5,0,0,0,0,0,0,0]\<rparr>"

definition vectors12be :: ndarray where
  "vectors12be = \<lparr>shape = [1, 2], arr_dtype = Float32, isnative = False,
     tobytes = [63,128,0,0, 64,0,0,0]\<rparr>"

text \<open>The indexer after \<^verbatim>\<open>add(keys3, vectors32)\<close> on a new one.\<close>

definition stored3 :: store where
  "stored3 = snd (add (init 1) keys3 vectors32)"

section \<open>Basic facts\<close>

lemma dtype_of_name_name: "dtype_of_name (dtype_name t) = Some t"
  by (cases t) (simp_all add: dtype_of_name_def)

lemma dtype_name_nonempty: "dtype_name t \<noteq> []"
  by (cases t) simp_all

lemma itemsize_pos: "0 < itemsize t"
  by (cases t) simp_all

lemma frombuffer_ok:
  "length bs = n * itemsize t \<Longrightarrow>
   frombuffer bs (dtype_name t) = Inr \<lparr>shape = [n], arr_dtype = t, isnative = True, tobytes = bs\<rparr>"
  using itemsize_pos [of t] by (simp add: frombuffer_def dtype_of_name_name)

lemma prod_list_rank2: "length xs = 2 \<Longrightarrow> prod_list xs = xs ! 0 * (xs ! 1 :: nat)"
  by (cases xs; cases "tl xs") auto

lemma stored3_eq:
  "stored3 = \<lparr>num_dim = Some 2, dtype = Some ''float32'', compress_level = 1,
     key_bytes = tobytes keys3, key_dtype = Some ''int64'', u_size = 3,
     int2ext_key = None, write_handler = tobytes vectors32, logger = []\<rparr>"
  by (simp add: stored3_def add_def write_batch_def init_def shape0_def keys3_def vectors32_def)

lemma add_stored3: "add (init 1) keys3 vectors32 = (Inr (), stored3)"
  by (simp add: stored3_def add_def write_batch_def init_def shape0_def keys3_def vectors32_def)

lemma raw_ndarray_stored3:
  "raw_ndarray stored3 (closed_file stored3) =
     (Inr (Some vectors32), (log Info LoadingIndex stored3)\<lparr>int2ext_key := Some keys3\<rparr>)"
  by (simp add: raw_ndarray_def load_gzip_def closed_file_def log_def stored3_eq
      frombuffer_def dtype_of_name_def reshape_rows_def refresh_keys_def reconcile_def
      shape0_def vectors32_def keys3_def)

section \<open>Appending: the order of the checks\<close>

text \<open>
  On a new indexer the chain of \<^verbatim>\<open>elif\<close> checks of \<^verbatim>\<open>add\<close> is not entered: two keys
  are accepted with three vectors. On an indexer of dimension 2, three keys with two
  vectors of width 3 are refused for the dimension, the check that comes first.
\<close>

theorem add_count_mismatch_counterexample:
  "length (shape vectors32) = 2 \<and> shape0 keys2 = Inr 2 \<and> 2 \<noteq> shape vectors32 ! 0 \<and>
   fst (add (init 1) keys2 vectors32) = Inr () \<and>
   length (shape vectors23) = 2 \<and> shape0 keys3 = Inr 3 \<and> 3 \<noteq> shape vectors23 ! 0 \<and>
   fst (add stored3 keys3 vectors23) = Inl (ValueError DimMismatch)"
  by (simp add: stored3_eq add_def write_batch_def init_def shape0_def
      keys2_def keys3_def vectors32_def vectors23_def)

text \<open>
  Claim C1, amended: on an indexer whose dimension is set (and not 0), an append of
  rank-2 vectors with a number of keys other than the number of rows raises and leaves the
  indexer as it was. The exception is the count mismatch when dimension and element type
  agree with the indexer's, the dimension mismatch when the dimension differs, and the
  type mismatch when only the element type differs.
\<close>

theorem add_count_mismatch:
  assumes "truthy_int (num_dim s)" and "length (shape vectors) = 2"
    and "shape0 keys = Inr m" and "m \<noteq> shape vectors ! 0"
  shows "\<exists>e. add s keys vectors = (Inl e, s) \<and>
           (num_dim s = Some (shape vectors ! 1) \<and>
            dtype s = Some (dtype_name (arr_dtype vectors)) \<longrightarrow> e = ValueError CountMismatch) \<and>
           (num_dim s \<noteq> Some (shape vectors ! 1) \<longrightarrow> e = ValueError DimMismatch) \<and>
           (num_dim s = Some (shape vectors ! 1) \<and>
            dtype s \<noteq> Some (dtype_name (arr_dtype vectors)) \<longrightarrow> e = TypeError DtypeMismatch)"
  using assms by (simp add: add_def)

theorem add_count_mismatch_witness:
  "truthy_int (num_dim stored3) \<and> length (shape vectors32) = 2 \<and> shape0 keys2 = Inr 2 \<and>
   2 \<noteq> shape vectors32 ! 0 \<and>
   add stored3 keys2 vectors32 = (Inl (ValueError CountMismatch), stored3)"
proof -
  have a: "truthy_int (num_dim stored3)" by (simp add: stored3_eq)
  have b: "length (shape vectors32) = 2" by (simp add: vectors32_def)
  have c: "shape0 keys2 = Inr 2" by (simp add: shape0_def keys2_def)
  have d: "2 \<noteq> shape vectors32 ! 0" by (simp add: vectors32_def)
  have e: "num_dim stored3 = Some (shape vectors32 ! 1)"
    by (simp add: stored3_eq vectors32_def)
  have f: "dtype stored3 = Some (dtype_name (arr_dtype vectors32))"
    by (simp add: stored3_eq vectors32_def)
  from add_count_mismatch [OF a b c d] e f
  have "add stored3 keys2 vectors32 = (Inl (ValueError CountMismatch), stored3)" by auto
  with a b c d show ?thesis by simp
qed

section \<open>Loading a file whose length does not fit the schema\<close>

lemma not_multiple_split:
  fixes n d z :: nat
  assumes "n mod (d * z) \<noteq> 0" and "n mod z = 0"
  shows "(n div z) mod d \<noteq> 0"
proof
  assume "(n div z) mod d = 0"
  then have "d dvd n div z" by auto
  moreover from assms(2) have "z dvd n" by auto
  ultimately have "d * z dvd n"
    by (metis dvd_div_mult_self mult_dvd_mono dvd_refl)
  with assms(1) show False by auto
qed

text \<open>
  Claim C2 says that such a load returns \<^verbatim>\<open>None\<close> and logs. The handler of \<^verbatim>\<open>_load_gzip\<close>
  catches \<^verbatim>\<open>EOFError\<close> only: with dimension \<open>D\<close> and element type \<open>T\<close> set, a file
  whose decompressed length is not a multiple of \<open>D * sizeof(T)\<close> makes \<^verbatim>\<open>_load_gzip\<close>
  raise \<^verbatim>\<open>ValueError\<close>, from \<^verbatim>\<open>np.frombuffer\<close> or from \<^verbatim>\<open>reshape\<close>, and only the
  line "loading index" is logged.
\<close>

theorem load_gzip_not_multiple_raises:
  assumes "num_dim s = Some D" and "0 < D" and "dtype s = Some (dtype_name T)"
    and "length bs mod (D * itemsize T) \<noteq> 0"
  shows "load_gzip s (Some (Complete bs)) =
           (Inl (ValueError (if length bs mod itemsize T \<noteq> 0 then BufferSize else CannotReshape)),
            log Info LoadingIndex s)"
proof -
  from assms(2) have D: "D \<noteq> 0" by simp
  show ?thesis
  proof (cases "length bs mod itemsize T = 0")
    case True
    with assms(4) have "(length bs div itemsize T) mod D \<noteq> 0"
      by (rule not_multiple_split)
    with True D assms(1,3) show ?thesis
      by (simp add: load_gzip_def log_def frombuffer_def reshape_rows_def
          dtype_of_name_name dtype_name_nonempty)
  next
    case False
    with D assms(1,3) show ?thesis
      by (simp add: load_gzip_def log_def frombuffer_def dtype_of_name_name dtype_name_nonempty)
  qed
qed

theorem load_gzip_not_multiple_raises_witness:
  "num_dim stored3 = Some 2 \<and> (0::nat) < 2 \<and> dtype stored3 = Some (dtype_name Float32) \<and>
   length [1, 2, 3, 4, 5 :: byte] mod (2 * itemsize Float32) \<noteq> 0 \<and>
   load_gzip stored3 (Some (Complete [1, 2, 3, 4, 5])) =
     (Inl (ValueError BufferSize), log Info LoadingIndex stored3)"
proof -
  have a: "num_dim stored3 = Some 2" by (simp add: stored3_eq)
  have b: "dtype stored3 = Some (dtype_name Float32)" by (simp add: stored3_eq)
  have c: "length [1, 2, 3, 4, 5 :: byte] mod (2 * itemsize Float32) \<noteq> 0" by simp
  from load_gzip_not_multiple_raises [OF a _ b c] a b c show ?thesis by simp
qed

text \<open>The exception goes through \<^verbatim>\<open>raw_ndarray\<close> and \<^verbatim>\<open>get_query_handler\<close> to the
  caller.\<close>

lemma load_error_propagates:
  assumes "fst (load_gzip s f) = Inl e"
  shows "fst (raw_ndarray s f) = Inl e \<and> fst (get_query_handler hook s f) = Inl e"
proof -
  from assms have "fst (raw_ndarray s f) = Inl e"
    by (cases "load_gzip s f") (simp add: raw_ndarray_def)
  then show ?thesis
    by (cases "raw_ndarray s f") (simp add: get_query_handler_def)
qed

section \<open>What the read path touches\<close>

lemma load_gzip_frame: "snd (load_gzip s f) = s\<lparr>logger := logger (snd (load_gzip s f))\<rparr>"
  by (auto simp: load_gzip_def log_def Let_def split: option.splits sum.splits gzfile.splits)

lemma raw_ndarray_frame:
  "snd (raw_ndarray s f) = s\<lparr>int2ext_key := int2ext_key (snd (raw_ndarray s f)),
                              logger := logger (snd (raw_ndarray s f))\<rparr>"
  by (auto simp: raw_ndarray_def load_gzip_def refresh_keys_def reconcile_def log_def Let_def
      split: option.splits sum.splits gzfile.splits prod.splits if_splits)

lemma get_query_handler_state:
  "fst (snd (get_query_handler hook s f)) = snd (raw_ndarray s f)"
  by (cases "raw_ndarray s f")
     (auto simp: get_query_handler_def split: sum.splits option.splits)

lemma load_gzip_schema:
  "num_dim (snd (load_gzip s f)) = num_dim s \<and> dtype (snd (load_gzip s f)) = dtype s"
  by (subst (1 2) load_gzip_frame) simp

lemma raw_ndarray_schema:
  "num_dim (snd (raw_ndarray s f)) = num_dim s \<and> dtype (snd (raw_ndarray s f)) = dtype s"
  by (subst (1 2) raw_ndarray_frame) simp

text \<open>
  Claim C10: \<^verbatim>\<open>raw_ndarray\<close>, with its call of \<^verbatim>\<open>_load_gzip\<close>, leaves \<^verbatim>\<open>num_dim\<close>,
  \<^verbatim>\<open>dtype\<close>, \<^verbatim>\<open>key_bytes\<close>, \<^verbatim>\<open>key_dtype\<close>, \<^verbatim>\<open>compress_level\<close>, \<^verbatim>\<open>_size\<close> and the
  output stream as they were, whatever the indexer and the file, also when it raises. It
  changes at most \<^verbatim>\<open>int2ext_key\<close> (and the log); \<^verbatim>\<open>_load_gzip\<close> alone changes the log
  only.
\<close>

theorem load_leaves_write_state:
  "num_dim (snd (raw_ndarray s f)) = num_dim s \<and>
   dtype (snd (raw_ndarray s f)) = dtype s \<and>
   key_bytes (snd (raw_ndarray s f)) = key_bytes s \<and>
   key_dtype (snd (raw_ndarray s f)) = key_dtype s \<and>
   compress_level (snd (raw_ndarray s f)) = compress_level s \<and>
   u_size (snd (raw_ndarray s f)) = u_size s \<and>
   write_handler (snd (raw_ndarray s f)) = write_handler s \<and>
   snd (raw_ndarray s f) = s\<lparr>int2ext_key := int2ext_key (snd (raw_ndarray s f)),
                              logger := logger (snd (raw_ndarray s f))\<rparr> \<and>
   snd (load_gzip s f) = s\<lparr>logger := logger (snd (load_gzip s f))\<rparr>"
proof -
  have raw: "snd (raw_ndarray s f) = s\<lparr>int2ext_key := int2ext_key (snd (raw_ndarray s f)),
                              logger := logger (snd (raw_ndarray s f))\<rparr>"
    by (rule raw_ndarray_frame)
  have "num_dim (snd (raw_ndarray s f)) = num_dim s"
    "dtype (snd (raw_ndarray s f)) = dtype s"
    "key_bytes (snd (raw_ndarray s f)) = key_bytes s"
    "key_dtype (snd (raw_ndarray s f)) = key_dtype s"
    "compress_level (snd (raw_ndarray s f)) = compress_level s"
    "u_size (snd (raw_ndarray s f)) = u_size s"
    "write_handler (snd (raw_ndarray s f)) = write_handler s"
    by (subst raw, simp)+
  with raw load_gzip_frame [of s f] show ?thesis by blast
qed

theorem load_leaves_write_state_witness:
  "snd (raw_ndarray stored3 (closed_file stored3)) =
     stored3\<lparr>int2ext_key := Some keys3, logger := [(Info, LoadingIndex)]\<rparr> \<and>
   num_dim (snd (raw_ndarray stored3 (closed_file stored3))) = Some 2 \<and>
   u_size (snd (raw_ndarray stored3 (closed_file stored3))) = 3"
proof -
  have "logger stored3 = []" by (simp add: stored3_eq)
  then have "int2ext_key (snd (raw_ndarray stored3 (closed_file stored3))) = Some keys3 \<and>
    logger (snd (raw_ndarray stored3 (closed_file stored3))) = [(Info, LoadingIndex)]"
    by (simp add: raw_ndarray_stored3 log_def)
  with load_leaves_write_state [of stored3 "closed_file stored3"] show ?thesis
    by (simp add: stored3_eq)
qed

section \<open>The schema, once set\<close>

lemma add_schema_kept:
  "truthy_int (num_dim s) \<Longrightarrow>
   num_dim (snd (add s keys vectors)) = num_dim s \<and> dtype (snd (add s keys vectors)) = dtype s"
  by (simp add: add_def write_batch_def Let_def split: sum.splits)

lemma step_schema_kept:
  "truthy_int (num_dim s) \<Longrightarrow>
   num_dim (step hook s operation) = num_dim s \<and> dtype (step hook s operation) = dtype s"
  by (cases operation)
     (simp_all add: add_schema_kept load_gzip_schema raw_ndarray_schema get_query_handler_state)

lemma run_schema_kept:
  "truthy_int (num_dim s) \<Longrightarrow>
   num_dim (run hook s ops) = num_dim s \<and> dtype (run hook s ops) = dtype s"
proof (induction ops arbitrary: s)
  case Nil
  then show ?case by (simp add: run_def)
next
  case (Cons operation ops)
  from Cons.prems have kept: "num_dim (step hook s operation) = num_dim s"
    "dtype (step hook s operation) = dtype s"
    by (simp_all add: step_schema_kept)
  with Cons.prems have "truthy_int (num_dim (step hook s operation))" by simp
  from Cons.IH [OF this] kept show ?case by (simp add: run_def)
qed

text \<open>
  A first append of vectors of width 0 succeeds and records \<^verbatim>\<open>num_dim = 0\<close>, which
  \<^verbatim>\<open>if not self.num_dim\<close> takes for unset: the next append, of width 3 and another element
  type, succeeds too and replaces both.
\<close>

theorem schema_zero_dim_counterexample:
  "fst (add (init 1) keys1 vectors10) = Inr () \<and>
   num_dim (snd (add (init 1) keys1 vectors10)) = Some 0 \<and>
   dtype (snd (add (init 1) keys1 vectors10)) = Some ''float32'' \<and>
   fst (add (snd (add (init 1) keys1 vectors10)) keys1 vectors13) = Inr () \<and>
   num_dim (snd (add (snd (add (init 1) keys1 vectors10)) keys1 vectors13)) = Some 3 \<and>
   dtype (snd (add (snd (add (init 1) keys1 vectors10)) keys1 vectors13)) = Some ''float64''"
  by (simp add: add_def write_batch_def init_def shape0_def keys1_def vectors10_def vectors13_def)

text \<open>
  Claim C3, amended: once an append on an indexer whose dimension is unset succeeds with
  vectors of width \<open>D \<ge> 1\<close>, \<^verbatim>\<open>num_dim\<close> is \<open>D\<close> and \<^verbatim>\<open>dtype\<close> is the name of the
  vectors' element type, and they keep these values through every later sequence of
  \<^verbatim>\<open>add\<close>, \<^verbatim>\<open>_load_gzip\<close>, \<^verbatim>\<open>raw_ndarray\<close> and \<^verbatim>\<open>get_query_handler\<close> calls, successful
  or not.
\<close>

theorem schema_fixed_by_first_append:
  assumes "\<not> truthy_int (num_dim s0)" and "add s0 keys vectors = (Inr (), s1)"
    and "0 < shape vectors ! 1"
  shows "num_dim s1 = Some (shape vectors ! 1) \<and>
         dtype s1 = Some (dtype_name (arr_dtype vectors)) \<and>
         num_dim (run hook s1 ops) = Some (shape vectors ! 1) \<and>
         dtype (run hook s1 ops) = Some (dtype_name (arr_dtype vectors))"
proof -
  from assms(1,2) have set: "num_dim s1 = Some (shape vectors ! 1)"
    "dtype s1 = Some (dtype_name (arr_dtype vectors))"
    by (auto simp: add_def write_batch_def Let_def split: if_splits sum.splits)
  with assms(3) have "truthy_int (num_dim s1)" by simp
  from run_schema_kept [OF this, of hook ops] set show ?thesis by simp
qed

theorem schema_fixed_by_first_append_witness:
  "\<not> truthy_int (num_dim (init 1)) \<and> add (init 1) keys3 vectors32 = (Inr (), stored3) \<and>
   0 < shape vectors32 ! 1 \<and>
   num_dim stored3 = Some 2 \<and> dtype stored3 = Some ''float32'' \<and>
   num_dim (run (build_advanced_index :: ndarray \<Rightarrow> unit result) stored3
      [Add keys45 vectors22, RawNdarray None, Add keys1 vectors13,
       GetQueryHandler (closed_file stored3)]) = Some 2 \<and>
   dtype (run (build_advanced_index :: ndarray \<Rightarrow> unit result) stored3
      [Add keys45 vectors22, RawNdarray None, Add keys1 vectors13,
       GetQueryHandler (closed_file stored3)]) = Some ''float32''"
proof -
  have a: "\<not> truthy_int (num_dim (init 1))" by (simp add: init_def)
  have b: "add (init 1) keys3 vectors32 = (Inr (), stored3)" by (rule add_stored3)
  have c: "0 < shape vectors32 ! 1" by (simp add: vectors32_def)
  from schema_fixed_by_first_append [OF a b c] a b c show ?thesis
    by (simp add: vectors32_def)
qed

section \<open>A refused append changes nothing\<close>

text \<open>
  After a first append of width 0 the recorded dimension is 0, and an append of width 3
  is not refused: it succeeds and its bytes are written. And one failing append does
  change the indexer: on a new indexer a 0-d key array passes line 51 unchecked, lines 69
  to 71 write the vectors, the key bytes and the key type, and only then
  \<^verbatim>\<open>keys.shape[0]\<close> raises \<^verbatim>\<open>IndexError\<close> at line 72.
\<close>

theorem dim_mismatch_zero_dim_counterexample:
  "add (init 1) keys1 vectors10 = (Inr (), snd (add (init 1) keys1 vectors10)) \<and>
   num_dim (snd (add (init 1) keys1 vectors10)) = Some 0 \<and>
   length (shape vectors13) = 2 \<and> shape vectors13 ! 1 \<noteq> 0 \<and>
   fst (add (snd (add (init 1) keys1 vectors10)) keys1 vectors13) \<noteq> Inl (ValueError DimMismatch) \<and>
   write_handler (snd (add (snd (add (init 1) keys1 vectors10)) keys1 vectors13)) =
     tobytes vectors13 \<and>
   fst (add (init 1) keys0d vectors32) = Inl IndexError \<and>
   snd (add (init 1) keys0d vectors32) \<noteq> init 1 \<and>
   num_dim (init 1) = None \<and> num_dim (snd (add (init 1) keys0d vectors32)) = Some 2 \<and>
   key_bytes (init 1) = [] \<and> key_bytes (snd (add (init 1) keys0d vectors32)) = tobytes keys0d \<and>
   key_dtype (init 1) = None \<and> key_dtype (snd (add (init 1) keys0d vectors32)) = Some ''int64'' \<and>
   write_handler (snd (add (init 1) keys0d vectors32)) =
     write_handler (init 1) @ tobytes vectors32"
  by (simp add: add_def write_batch_def init_def shape0_def keys1_def vectors10_def
      vectors13_def keys0d_def vectors32_def)

lemma write_batch_error:
  "write_batch s keys vectors = (Inl e, s') \<Longrightarrow> e = IndexError \<and> shape keys = []"
  by (auto simp: write_batch_def Let_def shape0_def split: list.splits)

lemma add_error_unchanged:
  "add s keys vectors = (Inl e, s') \<Longrightarrow> e \<noteq> IndexError \<Longrightarrow> s' = s"
  by (auto simp: add_def shape0_def split: if_splits list.splits dest: write_batch_error)

lemma add_error_unchanged_set:
  "add s keys vectors = (Inl e, s') \<Longrightarrow> truthy_int (num_dim s) \<Longrightarrow> s' = s"
  by (auto simp: add_def shape0_def split: if_splits list.splits dest: write_batch_error)

lemma add_index_error:
  "add s keys vectors = (Inl IndexError, s') \<Longrightarrow> shape keys = []"
  by (auto simp: add_def shape0_def split: if_splits list.splits dest: write_batch_error)

text \<open>
  Claim C4, amended: on an indexer whose dimension is \<open>D \<ge> 1\<close>, an append of rank-2
  vectors of another width raises the dimension mismatch and leaves the whole indexer as it
  was: nothing is written to the stream, and \<^verbatim>\<open>key_bytes\<close>, \<^verbatim>\<open>key_dtype\<close>, \<^verbatim>\<open>_size\<close>,
  \<^verbatim>\<open>num_dim\<close> and \<^verbatim>\<open>dtype\<close> keep their values. A failing append leaves the whole indexer
  as it was in each of these two cases: its exception is not the \<^verbatim>\<open>IndexError\<close> of
  \<^verbatim>\<open>keys.shape[0]\<close>, that is, one of the five checks of \<^verbatim>\<open>add\<close> refuses it (rank,
  dimension, element type, count, key type); or the dimension of the indexer is set (neither
  \<^verbatim>\<open>None\<close> nor 0), whatever the exception. The \<^verbatim>\<open>IndexError\<close> is raised for a 0-d key array
  only. Nothing is said of the one remaining failure, that \<^verbatim>\<open>IndexError\<close> on an indexer
  whose dimension is unset.
\<close>

theorem dim_mismatch_fails_atomically:
  "(num_dim s = Some D \<and> 0 < D \<and> length (shape vectors) = 2 \<and> shape vectors ! 1 \<noteq> D \<longrightarrow>
      add s keys vectors = (Inl (ValueError DimMismatch), s)) \<and>
   (add s keys vectors = (Inl e, s') \<and> (e \<noteq> IndexError \<or> truthy_int (num_dim s)) \<longrightarrow>
      s' = s \<and> write_handler s' = write_handler s \<and> key_bytes s' = key_bytes s \<and>
      key_dtype s' = key_dtype s \<and> u_size s' = u_size s \<and> num_dim s' = num_dim s \<and>
      dtype s' = dtype s) \<and>
   (add s keys vectors = (Inl e, s') \<and> e = IndexError \<longrightarrow> shape keys = [])"
proof -
  have "add s keys vectors = (Inl (ValueError DimMismatch), s)"
    if "num_dim s = Some D" "0 < D" "length (shape vectors) = 2" "shape vectors ! 1 \<noteq> D"
    using that by (auto simp: add_def)
  moreover have "s' = s" if "add s keys vectors = (Inl e, s')" "e \<noteq> IndexError"
    using that by (rule add_error_unchanged)
  moreover have "s' = s" if "add s keys vectors = (Inl e, s')" "truthy_int (num_dim s)"
    using that by (rule add_error_unchanged_set)
  moreover have "shape keys = []" if "add s keys vectors = (Inl e, s')" "e = IndexError"
    using that by (auto dest: add_index_error)
  ultimately show ?thesis by blast
qed

theorem dim_mismatch_fails_atomically_witness:
  "num_dim stored3 = Some 2 \<and> (0::nat) < 2 \<and> length (shape vectors23) = 2 \<and>
   shape vectors23 ! 1 \<noteq> 2 \<and>
   add stored3 keys2 vectors23 = (Inl (ValueError DimMismatch), stored3) \<and>
   ValueError DimMismatch \<noteq> IndexError \<and>
   add stored3 keys0d vectors32 = (Inl IndexError, stored3) \<and>
   truthy_int (num_dim stored3) \<and> shape keys0d = [] \<and>
   write_handler stored3 = tobytes vectors32 \<and> u_size stored3 = 3"
proof -
  have a: "num_dim stored3 = Some 2 \<and> (0::nat) < 2 \<and> length (shape vectors23) = 2 \<and>
    shape vectors23 ! 1 \<noteq> 2"
    by (simp add: stored3_eq vectors23_def)
  from dim_mismatch_fails_atomically
    [of stored3 2 vectors23 keys2 "ValueError DimMismatch" stored3] a
  have b: "add stored3 keys2 vectors23 = (Inl (ValueError DimMismatch), stored3)" by blast
  have t: "truthy_int (num_dim stored3)" by (simp add: stored3_eq)
  obtain s' where c: "add stored3 keys0d vectors32 = (Inl IndexError, s')"
    by (simp add: add_def shape0_def stored3_eq keys0d_def vectors32_def)
  from dim_mismatch_fails_atomically [of stored3 2 vectors32 keys0d IndexError s'] c t
  have "s' = stored3 \<and> shape keys0d = []" by blast
  with a b c t show ?thesis by (simp add: stored3_eq)
qed

section \<open>Sequences of consistent appends\<close>

lemma add_batch_ok:
  assumes "batch_ok D T KT (keys, vectors)"
    and "\<not> truthy_int (num_dim s) \<or>
         (num_dim s = Some D \<and> dtype s = Some (dtype_name T) \<and> key_dtype s = Some (dtype_name KT))"
  shows "add s keys vectors =
    (Inr (), s\<lparr>num_dim := Some D, dtype := Some (dtype_name T),
               write_handler := write_handler s @ tobytes vectors,
               key_bytes := key_bytes s @ tobytes keys,
               key_dtype := Some (dtype_name KT),
               u_size := u_size s + shape vectors ! 0\<rparr>)"
  using assms by (auto simp: batch_ok_def add_def write_batch_def Let_def shape0_def)

lemma batch_ok_lengths:
  assumes "batch_ok D T KT (keys, vectors)"
  shows "length (tobytes vectors) = shape vectors ! 0 * (D * itemsize T)"
    and "length (tobytes keys) = shape vectors ! 0 * itemsize KT"
  using assms by (auto simp: batch_ok_def wf_array_def prod_list_rank2)

lemma add_all_ok:
  assumes "\<forall>b \<in> set bs. batch_ok D T KT b"
    and "\<not> truthy_int (num_dim s) \<or>
         (num_dim s = Some D \<and> dtype s = Some (dtype_name T) \<and> key_dtype s = Some (dtype_name KT))"
  shows "fst (add_all s bs) = Inr () \<and>
         u_size (snd (add_all s bs)) = u_size s + total_rows bs \<and>
         length (write_handler (snd (add_all s bs))) =
           length (write_handler s) + total_rows bs * (D * itemsize T) \<and>
         length (key_bytes (snd (add_all s bs))) =
           length (key_bytes s) + total_rows bs * itemsize KT \<and>
         (bs \<noteq> [] \<longrightarrow> num_dim (snd (add_all s bs)) = Some D \<and>
            dtype (snd (add_all s bs)) = Some (dtype_name T) \<and>
            key_dtype (snd (add_all s bs)) = Some (dtype_name KT))"
  using assms
proof (induction bs arbitrary: s)
  case Nil
  then show ?case by (simp add: total_rows_def)
next
  case (Cons b bs)
  obtain keys vectors where b: "b = (keys, vectors)" by (cases b)
  from Cons.prems(1) b have ok: "batch_ok D T KT (keys, vectors)" by simp
  let ?s' = "s\<lparr>num_dim := Some D, dtype := Some (dtype_name T),
               write_handler := write_handler s @ tobytes vectors,
               key_bytes := key_bytes s @ tobytes keys,
               key_dtype := Some (dtype_name KT),
               u_size := u_size s + shape vectors ! 0\<rparr>"
  from add_batch_ok [OF ok Cons.prems(2)]
  have step: "add s keys vectors = (Inr (), ?s')" .
  have schema': "\<not> truthy_int (num_dim ?s') \<or>
         (num_dim ?s' = Some D \<and> dtype ?s' = Some (dtype_name T) \<and>
          key_dtype ?s' = Some (dtype_name KT))"
    by simp
  from Cons.prems(1) have rest: "\<forall>b \<in> set bs. batch_ok D T KT b" by simp
  note IH = Cons.IH [OF rest schema']
  have unfold: "add_all s (b # bs) = add_all ?s' bs"
    by (simp add: b step)
  have rows: "total_rows (b # bs) = shape vectors ! 0 + total_rows bs"
    by (simp add: total_rows_def b)
  have schema_final: "num_dim (snd (add_all ?s' bs)) = Some D \<and>
      dtype (snd (add_all ?s' bs)) = Some (dtype_name T) \<and>
      key_dtype (snd (add_all ?s' bs)) = Some (dtype_name KT)"
    using IH by (cases "bs = []") simp_all
  from IH schema_final batch_ok_lengths [OF ok] show ?case
    by (simp add: unfold rows add_mult_distrib)
qed

text \<open>
  Claim C8: every sequence of appends on a new indexer whose batches share the dimension
  \<open>D\<close>, the element type \<open>T\<close> and the key type \<open>KT\<close>, each with as many keys as rows,
  succeeds, and afterwards \<^verbatim>\<open>_size\<close> is the sum of the row counts, which is also
  \<open>len(key_bytes) / sizeof(KT)\<close> and, for \<open>D \<ge> 1\<close> (where the quotient is defined),
  the number of written bytes divided by \<open>D * sizeof(T)\<close>; for every \<open>D\<close> the number of
  written bytes is \<open>_size * D * sizeof(T)\<close>.
\<close>

theorem count_matches_buffers:
  assumes "\<forall>b \<in> set bs. batch_ok D T KT b"
  shows "fst (add_all (init cl) bs) = Inr () \<and>
         u_size (snd (add_all (init cl) bs)) = total_rows bs \<and>
         length (key_bytes (snd (add_all (init cl) bs))) = total_rows bs * itemsize KT \<and>
         length (key_bytes (snd (add_all (init cl) bs))) div itemsize KT = total_rows bs \<and>
         length (write_handler (snd (add_all (init cl) bs))) = total_rows bs * (D * itemsize T) \<and>
         (0 < D \<longrightarrow>
            length (write_handler (snd (add_all (init cl) bs))) div (D * itemsize T) =
              total_rows bs) \<and>
         (bs \<noteq> [] \<longrightarrow> num_dim (snd (add_all (init cl) bs)) = Some D \<and>
            dtype (snd (add_all (init cl) bs)) = Some (dtype_name T) \<and>
            key_dtype (snd (add_all (init cl) bs)) = Some (dtype_name KT))"
proof -
  have "\<not> truthy_int (num_dim (init cl)) \<or>
         (num_dim (init cl) = Some D \<and> dtype (init cl) = Some (dtype_name T) \<and>
          key_dtype (init cl) = Some (dtype_name KT))"
    by (simp add: init_def)
  from add_all_ok [OF assms this] show ?thesis
    using itemsize_pos [of KT] itemsize_pos [of T]
    by (simp add: init_def)
qed

theorem count_matches_buffers_witness:
  "batch_ok 2 Float32 Int64 (keys3, vectors32) \<and> batch_ok 2 Float32 Int64 (keys45, vectors22) \<and>
   fst (add_all (init 1) [(keys3, vectors32), (keys45, vectors22)]) = Inr () \<and>
   u_size (snd (add_all (init 1) [(keys3, vectors32), (keys45, vectors22)])) = 5 \<and>
   length (key_bytes (snd (add_all (init 1) [(keys3, vectors32), (keys45, vectors22)]))) div 8 = 5 \<and>
   length (write_handler (snd (add_all (init 1) [(keys3, vectors32), (keys45, vectors22)])))
     div (2 * 4) = 5"
proof -
  have a: "\<forall>b \<in> set [(keys3, vectors32), (keys45, vectors22)]. batch_ok 2 Float32 Int64 b"
    by (simp add: batch_ok_def wf_array_def keys3_def vectors32_def keys45_def vectors22_def)
  have r: "total_rows [(keys3, vectors32), (keys45, vectors22)] = 5"
    by (simp add: total_rows_def vectors32_def vectors22_def)
  from count_matches_buffers [OF a, of 1] a r show ?thesis by simp
qed

section \<open>Writing, then loading\<close>

text \<open>What comes back from an indexer whose stream holds \<open>N \<ge> 1\<close> rows of its schema
  and whose \<^verbatim>\<open>key_bytes\<close> hold \<open>N\<close> keys: native arrays over these bytes.\<close>

lemma raw_ndarray_consistent:
  assumes "num_dim s = Some D" and "0 < D" and "dtype s = Some (dtype_name T)"
    and "key_dtype s = Some (dtype_name KT)" and "0 < N"
    and "length (write_handler s) = N * (D * itemsize T)"
    and "length (key_bytes s) = N * itemsize KT"
  shows "raw_ndarray s (closed_file s) =
    (Inr (Some \<lparr>shape = [N, D], arr_dtype = T, isnative = True, tobytes = write_handler s\<rparr>),
     (log Info LoadingIndex s)
       \<lparr>int2ext_key := Some \<lparr>shape = [N], arr_dtype = KT, isnative = True, tobytes = key_bytes s\<rparr>\<rparr>)"
proof -
  let ?vecs = "\<lparr>shape = [N, D], arr_dtype = T, isnative = True, tobytes = write_handler s\<rparr>"
  let ?table = "\<lparr>shape = [N], arr_dtype = KT, isnative = True, tobytes = key_bytes s\<rparr>"
  let ?s1 = "log Info LoadingIndex s"
  from assms(6) have lenV: "length (write_handler s) = (N * D) * itemsize T"
    by (simp add: mult.assoc)
  from assms(5,7) itemsize_pos [of KT] have nonempty: "key_bytes s \<noteq> []"
    by (cases "key_bytes s") auto
  have load: "load_gzip s (closed_file s) = (Inr (Some ?vecs), ?s1)"
    using assms(1,2,3)
    by (simp add: load_gzip_def closed_file_def log_def frombuffer_ok [OF lenV]
        reshape_rows_def dtype_name_nonempty)
  have refresh: "refresh_keys ?s1 = Inr (?s1\<lparr>int2ext_key := Some ?table\<rparr>)"
    using nonempty assms(4)
    by (simp add: refresh_keys_def log_def frombuffer_ok [OF assms(7)] dtype_name_nonempty)
  have rec: "reconcile (?s1\<lparr>int2ext_key := Some ?table\<rparr>) ?vecs =
      (Inr (Some ?vecs), ?s1\<lparr>int2ext_key := Some ?table\<rparr>)"
    using assms(5) by (simp add: reconcile_def shape0_def)
  show ?thesis by (simp add: raw_ndarray_def load refresh rec)
qed

text \<open>Without key bytes the guard of line 109 is false and line 110 is not run: the
  lookup table stays what it was. So after a batch of no rows on a new indexer the table
  is the one the parent class set up, whatever that is, and not one made from the keys.\<close>

lemma raw_ndarray_keeps_table:
  "key_bytes s = [] \<Longrightarrow> int2ext_key (snd (raw_ndarray s f)) = int2ext_key s"
  by (auto simp: raw_ndarray_def load_gzip_def refresh_keys_def reconcile_def log_def Let_def
      split: option.splits sum.splits gzfile.splits prod.splits if_splits)

lemma add_keeps_table: "int2ext_key (snd (add s keys vectors)) = int2ext_key s"
  by (simp add: add_def write_batch_def Let_def split: sum.splits)

lemma add_key_bytes:
  "key_bytes (snd (add s keys vectors)) = key_bytes s \<or>
   key_bytes (snd (add s keys vectors)) = key_bytes s @ tobytes keys"
  by (simp add: add_def write_batch_def Let_def split: sum.splits)

lemma no_rows_keeps_table:
  assumes "key_bytes s0 = []" and "tobytes keys = []"
  shows "int2ext_key (snd (raw_ndarray (snd (add s0 keys vectors)) f)) = int2ext_key s0"
proof -
  from add_key_bytes [of s0 keys vectors] assms
  have "key_bytes (snd (add s0 keys vectors)) = []" by auto
  then show ?thesis by (simp add: raw_ndarray_keeps_table add_keeps_table)
qed

text \<open>
  Three batches that do not come back. Vectors of width 0 record \<^verbatim>\<open>num_dim = 0\<close>, with
  which \<^verbatim>\<open>_load_gzip\<close> reads nothing and returns \<^verbatim>\<open>None\<close>. Vectors in the byte order that
  is not the machine's are written as they are and recorded as \<^verbatim>\<open>'float32'\<close>, so they are
  read back in the machine's order: the array returned has the same bytes and other
  elements. A batch of no rows leaves \<^verbatim>\<open>key_bytes\<close> empty, so no lookup table is made,
  and on a new indexer, whose table is unset, \<^verbatim>\<open>raw_ndarray\<close> returns \<^verbatim>\<open>None\<close>.
\<close>

theorem roundtrip_empty_counterexample:
  "wf_array vectors10 \<and> wf_array keys1 \<and> shape vectors10 = [1, 0] \<and> shape keys1 = [1] \<and>
   add (init 1) keys1 vectors10 = (Inr (), snd (add (init 1) keys1 vectors10)) \<and>
   fst (raw_ndarray (snd (add (init 1) keys1 vectors10))
          (closed_file (snd (add (init 1) keys1 vectors10)))) = Inr None \<and>
   wf_array vectors12be \<and> shape vectors12be = [1, 2] \<and>
   add (init 1) keys1 vectors12be = (Inr (), snd (add (init 1) keys1 vectors12be)) \<and>
   fst (raw_ndarray (snd (add (init 1) keys1 vectors12be))
          (closed_file (snd (add (init 1) keys1 vectors12be)))) =
     Inr (Some \<lparr>shape = [1, 2], arr_dtype = Float32, isnative = True,
                tobytes = [63,128,0,0, 64,0,0,0]\<rparr>) \<and>
   elements \<lparr>shape = [1, 2], arr_dtype = Float32, isnative = True,
              tobytes = [63,128,0,0, 64,0,0,0]\<rparr> = [[63,128,0,0], [64,0,0,0]] \<and>
   elements vectors12be = [[0,0,128,63], [0,0,0,64]] \<and>
   wf_array vectors02 \<and> wf_array keys0 \<and> shape vectors02 = [0, 2] \<and> shape keys0 = [0] \<and>
   add (init 1) keys0 vectors02 = (Inr (), snd (add (init 1) keys0 vectors02)) \<and>
   fst (raw_ndarray (snd (add (init 1) keys0 vectors02))
          (closed_file (snd (add (init 1) keys0 vectors02)))) = Inr None \<and>
   int2ext_key (snd (raw_ndarray (snd (add (init 1) keys0 vectors02))
          (closed_file (snd (add (init 1) keys0 vectors02))))) = None"
  by (simp add: wf_array_def add_def write_batch_def init_def shape0_def raw_ndarray_def
      load_gzip_def log_def closed_file_def frombuffer_def reshape_rows_def dtype_of_name_def
      refresh_keys_def reconcile_def elements_def swap_item_def upt_rec
      keys0_def vectors02_def keys1_def vectors10_def vectors12be_def)

text \<open>
  Claim C5, amended: take vectors of shape \<open>N \<times> D\<close> with \<open>N \<ge> 1\<close> and \<open>D \<ge> 1\<close> and a
  1-d array of \<open>N\<close> keys, both of a numeric scalar type of fixed width and in the byte
  order of the machine, and an indexer whose dimension is unset and whose \<^verbatim>\<open>key_bytes\<close>
  and stream are empty (a new one, whatever the parent class set up besides). Appending
  them, closing the stream and calling \<^verbatim>\<open>raw_ndarray\<close> returns an array equal to the
  vectors, and leaves in \<^verbatim>\<open>int2ext_key\<close> an array equal to the keys: same shape, same
  type and byte order, same bytes, hence the same elements.
\<close>

theorem roundtrip:
  assumes "\<not> truthy_int (num_dim s0)" and "key_bytes s0 = []" and "write_handler s0 = []"
    and "wf_array vectors" and "isnative vectors" and "shape vectors = [N, D]"
    and "0 < N" and "0 < D"
    and "wf_array keys" and "isnative keys" and "shape keys = [N]"
  shows "fst (add s0 keys vectors) = Inr () \<and>
         fst (raw_ndarray (snd (add s0 keys vectors))
                (closed_file (snd (add s0 keys vectors)))) = Inr (Some vectors) \<and>
         int2ext_key (snd (raw_ndarray (snd (add s0 keys vectors))
                (closed_file (snd (add s0 keys vectors))))) = Some keys"
proof -
  let ?T = "arr_dtype vectors" and ?KT = "arr_dtype keys"
  let ?s = "s0\<lparr>num_dim := Some D, dtype := Some (dtype_name ?T),
               write_handler := tobytes vectors, key_bytes := tobytes keys,
               key_dtype := Some (dtype_name ?KT), u_size := u_size s0 + N\<rparr>"
  from assms have ok: "batch_ok D ?T ?KT (keys, vectors)"
    by (simp add: batch_ok_def)
  from assms(1)
  have "\<not> truthy_int (num_dim s0) \<or>
         (num_dim s0 = Some D \<and> dtype s0 = Some (dtype_name ?T) \<and>
          key_dtype s0 = Some (dtype_name ?KT))"
    by simp
  from add_batch_ok [OF ok this] assms(2,3,6)
  have added: "add s0 keys vectors = (Inr (), ?s)"
    by simp
  from assms(4,6) have lenV: "length (write_handler ?s) = N * (D * itemsize ?T)"
    by (simp add: wf_array_def)
  from assms(9,11) have lenK: "length (key_bytes ?s) = N * itemsize ?KT"
    by (simp add: wf_array_def)
  have V: "\<lparr>shape = [N, D], arr_dtype = ?T, isnative = True, tobytes = tobytes vectors\<rparr> = vectors"
    using assms(5,6) by simp
  have K: "\<lparr>shape = [N], arr_dtype = ?KT, isnative = True, tobytes = tobytes keys\<rparr> = keys"
    using assms(10,11) by simp
  have "raw_ndarray ?s (closed_file ?s) =
    (Inr (Some \<lparr>shape = [N, D], arr_dtype = ?T, isnative = True, tobytes = write_handler ?s\<rparr>),
     (log Info LoadingIndex ?s)
       \<lparr>int2ext_key := Some \<lparr>shape = [N], arr_dtype = ?KT, isnative = True,
                               tobytes = key_bytes ?s\<rparr>\<rparr>)"
    by (rule raw_ndarray_consistent [OF _ assms(8) _ _ assms(7) lenV lenK]) simp_all
  with added V K show ?thesis by simp
qed

theorem roundtrip_witness:
  "\<not> truthy_int (num_dim (init 1)) \<and> key_bytes (init 1) = [] \<and> write_handler (init 1) = [] \<and>
   wf_array vectors32 \<and> isnative vectors32 \<and> shape vectors32 = [3, 2] \<and>
   (0::nat) < 3 \<and> (0::nat) < 2 \<and>
   wf_array keys3 \<and> isnative keys3 \<and> shape keys3 = [3] \<and>
   fst (raw_ndarray stored3 (closed_file stored3)) = Inr (Some vectors32) \<and>
   int2ext_key (snd (raw_ndarray stored3 (closed_file stored3))) = Some keys3"
proof -
  have a: "\<not> truthy_int (num_dim (init 1))" "key_bytes (init 1) = []"
    "write_handler (init 1) = []"
    "wf_array vectors32" "isnative vectors32" "shape vectors32 = [3, 2]"
    "(0::nat) < 3" "(0::nat) < 2"
    "wf_array keys3" "isnative keys3" "shape keys3 = [3]"
    by (simp_all add: init_def wf_array_def vectors32_def keys3_def)
  from roundtrip [OF a] a show ?thesis by (simp add: stored3_def)
qed

text \<open>Several batches of one schema, appended in a row, come back stacked: the rows in
  the order of the appends, and the keys with them.\<close>

lemma add_all_buffers:
  assumes "\<forall>b \<in> set bs. batch_ok D T KT b"
    and "\<not> truthy_int (num_dim s) \<or>
         (num_dim s = Some D \<and> dtype s = Some (dtype_name T) \<and> key_dtype s = Some (dtype_name KT))"
  shows "write_handler (snd (add_all s bs)) = write_handler s @ concat (map (\<lambda>(keys, vectors). tobytes vectors) bs) \<and>
         key_bytes (snd (add_all s bs)) = key_bytes s @ concat (map (\<lambda>(keys, vectors). tobytes keys) bs)"
  using assms
proof (induction bs arbitrary: s)
  case Nil
  then show ?case by simp
next
  case (Cons b bs)
  obtain keys vectors where b: "b = (keys, vectors)" by (cases b)
  from Cons.prems(1) b have ok: "batch_ok D T KT (keys, vectors)" by simp
  let ?s' = "s\<lparr>num_dim := Some D, dtype := Some (dtype_name T),
               write_handler := write_handler s @ tobytes vectors,
               key_bytes := key_bytes s @ tobytes keys,
               key_dtype := Some (dtype_name KT),
               u_size := u_size s + shape vectors ! 0\<rparr>"
  from add_batch_ok [OF ok Cons.prems(2)]
  have step: "add s keys vectors = (Inr (), ?s')" .
  have schema': "\<not> truthy_int (num_dim ?s') \<or>
         (num_dim ?s' = Some D \<and> dtype ?s' = Some (dtype_name T) \<and>
          key_dtype ?s' = Some (dtype_name KT))"
    by simp
  from Cons.prems(1) have rest: "\<forall>b \<in> set bs. batch_ok D T KT b" by simp
  from Cons.IH [OF rest schema'] show ?case
    by (simp add: b step)
qed

lemma roundtrip_batches:
  assumes "\<forall>b \<in> set bs. batch_ok D T KT b" and "0 < D" and "0 < total_rows bs"
  shows "fst (add_all (init cl) bs) = Inr () \<and>
         fst (raw_ndarray (snd (add_all (init cl) bs)) (closed_file (snd (add_all (init cl) bs)))) =
           Inr (Some \<lparr>shape = [total_rows bs, D], arr_dtype = T, isnative = True,
                      tobytes = concat (map (\<lambda>(keys, vectors). tobytes vectors) bs)\<rparr>) \<and>
         int2ext_key (snd (raw_ndarray (snd (add_all (init cl) bs))
                             (closed_file (snd (add_all (init cl) bs))))) =
           Some \<lparr>shape = [total_rows bs], arr_dtype = KT, isnative = True,
                 tobytes = concat (map (\<lambda>(keys, vectors). tobytes keys) bs)\<rparr>"
proof -
  let ?s = "snd (add_all (init cl) bs)"
  have schema: "\<not> truthy_int (num_dim (init cl)) \<or>
         (num_dim (init cl) = Some D \<and> dtype (init cl) = Some (dtype_name T) \<and>
          key_dtype (init cl) = Some (dtype_name KT))"
    by (simp add: init_def)
  from assms(3) have ne: "bs \<noteq> []" by (auto simp: total_rows_def)
  note ok = add_all_ok [OF assms(1) schema]
  note buf = add_all_buffers [OF assms(1) schema]
  from ok ne have a: "num_dim ?s = Some D" "dtype ?s = Some (dtype_name T)"
    "key_dtype ?s = Some (dtype_name KT)"
    "length (write_handler ?s) = total_rows bs * (D * itemsize T)"
    "length (key_bytes ?s) = total_rows bs * itemsize KT"
    by (simp_all add: init_def)
  from raw_ndarray_consistent [OF a(1) assms(2) a(2) a(3) assms(3) a(4) a(5)] ok buf
  show ?thesis by (simp add: init_def)
qed

section \<open>Loading without a file\<close>

text \<open>
  Claim C6: when no file exists at the path, \<^verbatim>\<open>_load_gzip\<close>, \<^verbatim>\<open>raw_ndarray\<close> and
  \<^verbatim>\<open>get_query_handler\<close> return \<^verbatim>\<open>None\<close> and raise nothing, for every indexer and so for a
  new one; the log gets the line "loading index" and the warning "numpy data not found".
\<close>

theorem missing_file_returns_none:
  "load_gzip s None = (Inr None, log Warning DataNotFound (log Info LoadingIndex s)) \<and>
   raw_ndarray s None = (Inr None, log Warning DataNotFound (log Info LoadingIndex s)) \<and>
   get_query_handler hook s None =
     (Inr None, log Warning DataNotFound (log Info LoadingIndex s), []) \<and>
   logger (snd (raw_ndarray s None)) = logger s @ [(Info, LoadingIndex), (Warning, DataNotFound)] \<and>
   fst (raw_ndarray (init cl) None) = Inr None"
  by (simp add: load_gzip_def raw_ndarray_def get_query_handler_def log_def)

theorem missing_file_returns_none_witness:
  "raw_ndarray (init 1) None =
     (Inr None, (init 1)\<lparr>logger := [(Info, LoadingIndex), (Warning, DataNotFound)]\<rparr>) \<and>
   fst (raw_ndarray stored3 None) = Inr None"
proof -
  have l: "log Warning DataNotFound (log Info LoadingIndex (init 1)) =
      (init 1)\<lparr>logger := [(Info, LoadingIndex), (Warning, DataNotFound)]\<rparr>"
    by (simp add: log_def init_def)
  from missing_file_returns_none
    [of "init 1" "build_advanced_index :: ndarray \<Rightarrow> unit result" 1]
  have a: "raw_ndarray (init 1) None =
      (Inr None, log Warning DataNotFound (log Info LoadingIndex (init 1)))"
    by (rule conjunct2 [THEN conjunct1])
  from missing_file_returns_none
    [of stored3 "build_advanced_index :: ndarray \<Rightarrow> unit result" 1]
  have "raw_ndarray stored3 None =
      (Inr None, log Warning DataNotFound (log Info LoadingIndex stored3))"
    by (rule conjunct2 [THEN conjunct1])
  then have b: "fst (raw_ndarray stored3 None) = Inr None" by simp
  from a b show ?thesis by (simp only: l simp_thms)
qed

section \<open>Keys and rows that do not pair\<close>

lemma load_gzip_rank2:
  "load_gzip s f = (Inr (Some vecs), s1) \<Longrightarrow> length (shape vecs) = 2"
  by (auto simp: load_gzip_def reshape_rows_def Let_def
      split: option.splits sum.splits gzfile.splits if_splits)

text \<open>
  Claim C7: when \<^verbatim>\<open>_load_gzip\<close> returns an array \<^verbatim>\<open>vecs\<close> (then of rank 2) and the
  lookup table, after the statement that rebuilds it from \<^verbatim>\<open>key_bytes\<close>, has a length
  other than \<^verbatim>\<open>vecs.shape[0]\<close>, \<^verbatim>\<open>raw_ndarray\<close> logs the error "the size of the keys and
  vectors are inconsistent" and returns \<^verbatim>\<open>None\<close>.
\<close>

theorem key_count_mismatch_returns_none:
  assumes "load_gzip s f = (Inr (Some vecs), s1)" and "refresh_keys s1 = Inr s2"
    and "int2ext_key s2 = Some k" and "shape0 k = Inr n" and "n \<noteq> shape vecs ! 0"
  shows "length (shape vecs) = 2 \<and>
         raw_ndarray s f =
           (Inr None, log Error (KeysVectorsInconsistent n (shape vecs ! 0)) s2)"
proof -
  from assms(1) have rank: "length (shape vecs) = 2" by (rule load_gzip_rank2)
  with assms(3,4,5)
  have "reconcile s2 vecs = (Inr None, log Error (KeysVectorsInconsistent n (shape vecs ! 0)) s2)"
    by (simp add: reconcile_def)
  with assms(1,2) rank show ?thesis by (simp add: raw_ndarray_def)
qed

theorem key_count_mismatch_returns_none_witness:
  "load_gzip stored3 (Some (Complete (tobytes vectors32 @ tobytes vectors32))) =
     (Inr (Some vectors62), log Info LoadingIndex stored3) \<and>
   refresh_keys (log Info LoadingIndex stored3) =
     Inr ((log Info LoadingIndex stored3)\<lparr>int2ext_key := Some keys3\<rparr>) \<and>
   shape0 keys3 = Inr 3 \<and> 3 \<noteq> shape vectors62 ! 0 \<and>
   raw_ndarray stored3 (Some (Complete (tobytes vectors32 @ tobytes vectors32))) =
     (Inr None, log Error (KeysVectorsInconsistent 3 6)
        ((log Info LoadingIndex stored3)\<lparr>int2ext_key := Some keys3\<rparr>))"
proof -
  have a: "load_gzip stored3 (Some (Complete (tobytes vectors32 @ tobytes vectors32))) =
     (Inr (Some vectors62), log Info LoadingIndex stored3)"
    by (simp add: load_gzip_def log_def stored3_eq frombuffer_def dtype_of_name_def
        reshape_rows_def vectors62_def vectors32_def)
  have b: "refresh_keys (log Info LoadingIndex stored3) =
     Inr ((log Info LoadingIndex stored3)\<lparr>int2ext_key := Some keys3\<rparr>)"
    by (simp add: refresh_keys_def log_def stored3_eq frombuffer_def dtype_of_name_def keys3_def)
  have c: "int2ext_key ((log Info LoadingIndex stored3)\<lparr>int2ext_key := Some keys3\<rparr>) = Some keys3"
    by simp
  have d: "shape0 keys3 = Inr 3" by (simp add: shape0_def keys3_def)
  have e: "3 \<noteq> shape vectors62 ! 0" by (simp add: vectors62_def)
  from key_count_mismatch_returns_none [OF a b c d e] a b d e show ?thesis
    by (simp add: vectors62_def)
qed

section \<open>The query path and the hook\<close>

lemma reconcile_aligned:
  "reconcile s vecs = (Inr (Some v), s') \<Longrightarrow>
   v = vecs \<and> length (shape v) = 2 \<and>
   (\<exists>k. int2ext_key s' = Some k \<and> shape0 k = Inr (shape v ! 0))"
  by (auto simp: reconcile_def log_def split: option.splits sum.splits if_splits)

lemma raw_ndarray_aligned:
  assumes "raw_ndarray s f = (Inr (Some vecs), s')"
  shows "length (shape vecs) = 2 \<and>
         (\<exists>k. int2ext_key s' = Some k \<and> shape0 k = Inr (shape vecs ! 0))"
proof -
  from assms obtain v s1 s2 where "refresh_keys s1 = Inr s2"
    and "reconcile s2 v = (Inr (Some vecs), s')"
    by (auto simp: raw_ndarray_def split: prod.splits sum.splits option.splits)
  then show ?thesis by (auto dest: reconcile_aligned)
qed

text \<open>
  Claim C9: \<^verbatim>\<open>get_query_handler\<close> calls \<^verbatim>\<open>build_advanced_index\<close> at most once, and only
  with the array that \<^verbatim>\<open>raw_ndarray\<close> returned: an array (not \<^verbatim>\<open>None\<close>) of rank 2 whose
  row count is the length of the lookup table \<^verbatim>\<open>int2ext_key\<close>. When \<^verbatim>\<open>raw_ndarray\<close>
  returns \<^verbatim>\<open>None\<close> the hook is not called and \<^verbatim>\<open>get_query_handler\<close> returns \<^verbatim>\<open>None\<close>; when
  it returns an array the hook is called with it and its result is the result.
\<close>

theorem hook_only_on_aligned_array:
  assumes "get_query_handler hook s f = (r, s', calls)"
  shows "(calls \<noteq> [] \<longrightarrow>
            (\<exists>vecs k. calls = [vecs] \<and> raw_ndarray s f = (Inr (Some vecs), s') \<and>
               length (shape vecs) = 2 \<and> int2ext_key s' = Some k \<and>
               shape0 k = Inr (shape vecs ! 0))) \<and>
         (fst (raw_ndarray s f) = Inr None \<longrightarrow> calls = [] \<and> r = Inr None) \<and>
         (\<forall>vecs. fst (raw_ndarray s f) = Inr (Some vecs) \<longrightarrow>
            calls = [vecs] \<and> r = map_sum id Some (hook vecs))"
proof (cases "raw_ndarray s f")
  case (Pair res s1)
  show ?thesis
  proof (cases res)
    case (Inl e)
    with Pair assms show ?thesis by (auto simp: get_query_handler_def)
  next
    case (Inr v)
    show ?thesis
    proof (cases v)
      case None
      with Inr Pair assms show ?thesis by (auto simp: get_query_handler_def)
    next
      case (Some vecs)
      with Inr Pair have raw: "raw_ndarray s f = (Inr (Some vecs), s1)" by simp
      from raw_ndarray_aligned [OF raw] raw assms show ?thesis
        by (auto simp: get_query_handler_def split: sum.splits)
    qed
  qed
qed

theorem hook_only_on_aligned_array_witness:
  "get_query_handler (\<lambda>vecs. Inr (shape vecs)) stored3 (closed_file stored3) =
     (Inr (Some [3, 2]), (log Info LoadingIndex stored3)\<lparr>int2ext_key := Some keys3\<rparr>,
      [vectors32]) \<and>
   [vectors32] \<noteq> [] \<and>
   raw_ndarray stored3 (closed_file stored3) =
     (Inr (Some vectors32), (log Info LoadingIndex stored3)\<lparr>int2ext_key := Some keys3\<rparr>) \<and>
   length (shape vectors32) = 2 \<and> shape0 keys3 = Inr (shape vectors32 ! 0) \<and>
   get_query_handler (\<lambda>vecs. Inr (shape vecs)) stored3 None =
     (Inr None, log Warning DataNotFound (log Info LoadingIndex stored3), []) \<and>
   fst (raw_ndarray stored3 None) = Inr None"
proof -
  note raw = raw_ndarray_stored3
  then have a: "get_query_handler (\<lambda>vecs. Inr (shape vecs)) stored3 (closed_file stored3) =
     (Inr (Some [3, 2]), (log Info LoadingIndex stored3)\<lparr>int2ext_key := Some keys3\<rparr>,
      [vectors32])"
    by (simp add: get_query_handler_def vectors32_def)
  have b: "get_query_handler (\<lambda>vecs. Inr (shape vecs)) stored3 None =
     (Inr None, log Warning DataNotFound (log Info LoadingIndex stored3), [])"
    by (simp add: get_query_handler_def raw_ndarray_def load_gzip_def log_def)
  have c: "fst (raw_ndarray stored3 None) = Inr None"
    by (simp add: raw_ndarray_def load_gzip_def log_def)
  from hook_only_on_aligned_array [OF a] hook_only_on_aligned_array [OF b] a b c raw
  show ?thesis by (simp add: shape0_def keys3_def vectors32_def)
qed

end
